theory Spec2Isabelle
  imports Complex_Main "HOL-Library.Word" "HOL-Library.Log_Nat"
begin

section \<open>Data model of sensorsd.c\<close>

text \<open>
  Modelled from the spec: \<^verbatim>\<open>enum sensor_type\<close> is declared in \<^verbatim>\<open>sys/sensors.h\<close>, which is
  not among the sources. The constructors below are the enumerators that \<^verbatim>\<open>sensorsd.c\<close>
  names (the sensor types of the spec's data model); \<open>SENSOR_OTHER k\<close> stands for any
  further enumerator of the header, which \<^verbatim>\<open>sensorsd.c\<close> only ever reaches through a
  \<^verbatim>\<open>default:\<close> label.
\<close>

datatype sensor_type =
    SENSOR_TEMP
  | SENSOR_FANRPM
  | SENSOR_VOLTS_DC
  | SENSOR_AMPS
  | SENSOR_INDICATOR
  | SENSOR_INTEGER
  | SENSOR_PERCENT
  | SENSOR_LUX
  | SENSOR_DRIVE
  | SENSOR_OTHER nat

text \<open>\<^verbatim>\<open>enum sensor_status\<close>: the five values \<^verbatim>\<open>check_sensors\<close> distinguishes.\<close>

datatype sensor_status =
    SENSOR_S_UNSPEC
  | SENSOR_S_OK
  | SENSOR_S_WARN
  | SENSOR_S_CRIT
  | SENSOR_S_UNKNOWN

type_synonym int64_t = "64 word"
type_synonym time_t = int

text \<open>\<^verbatim>\<open>struct limits_t\<close> (lines 48-63), without the list linkage: the watch list is a HOL list.\<close>

record limits_t =
  dxname :: string
  dev :: int
  type :: sensor_type
  numt :: int
  last_val :: int64_t
  lower :: int64_t
  upper :: int64_t
  command :: "string option"
  status_changed :: time_t
  status :: sensor_status
  status2 :: sensor_status
  count :: int
  watch :: "8 word"

text \<open>The two fields of \<^verbatim>\<open>struct sensor\<close> that \<^verbatim>\<open>check_sensors\<close> reads.\<close>

record sensor =
  svalue :: int64_t
  sstatus :: sensor_status

datatype error = Fatal string | Undefined_conversion

section \<open>check_sensors: the hysteresis engine\<close>

text \<open>
  Lines 215-226: the status a sample is a candidate for. The comparisons are those of
  \<^verbatim>\<open>int64_t\<close>, hence signed.
\<close>

definition newstatus :: "sensor \<Rightarrow> limits_t \<Rightarrow> sensor_status" where
  "newstatus s limit =
     (if sstatus s = SENSOR_S_UNKNOWN then SENSOR_S_WARN
      else if sstatus s = SENSOR_S_UNSPEC then
        (if upper limit <s svalue s \<or> svalue s <s lower limit
         then SENSOR_S_CRIT else SENSOR_S_OK)
      else sstatus s)"

text \<open>
  Lines 214-241: what one successful read does to a watched entry. \<open>now\<close> is the value
  \<^verbatim>\<open>time(NULL)\<close> returns at this entry.
\<close>

definition update_limit :: "sensor \<Rightarrow> time_t \<Rightarrow> limits_t \<Rightarrow> limits_t" where
  "update_limit s now limit =
     (let limit = limit\<lparr>last_val := svalue s\<rparr>;
          new = newstatus s limit
      in if status limit \<noteq> new then
           (if new = SENSOR_S_OK then
              limit\<lparr>status2 := new, status := new, status_changed := now\<rparr>
            else if status2 limit \<noteq> new then
              limit\<lparr>status2 := new, count := 0\<rparr>
            else if 3 \<le> count limit + 1 then
              limit\<lparr>count := count limit + 1, status2 := new, status := new,
                    status_changed := now\<rparr>
            else limit\<lparr>count := count limit + 1\<rparr>)
         else limit)"

text \<open>
  Lines 206-213: the body of the loop for one entry. \<open>sysctl\<close> is the read of the sensor
  named by \<^verbatim>\<open>mib[2..4]\<close>; \<open>None\<close> is its return value -1, on which \<^verbatim>\<open>err(1, "sysctl")\<close>
  ends the process.
\<close>

definition check_limit ::
  "(int \<times> sensor_type \<times> int \<Rightarrow> sensor option) \<Rightarrow> time_t \<Rightarrow> limits_t \<Rightarrow> error + limits_t" where
  "check_limit sysctl now limit =
     (if watch limit \<noteq> 0 then
        (case sysctl (dev limit, type limit, numt limit) of
           None \<Rightarrow> Inl (Fatal ''sysctl'')
         | Some s \<Rightarrow> Inr (update_limit s now limit))
      else Inr limit)"


text \<open>
  Successive passes over one entry: each element of the list is the sample read and the
  time of one pass, oldest first.
\<close>

fun feed :: "(sensor \<times> time_t) list \<Rightarrow> limits_t \<Rightarrow> limits_t" where
  "feed [] limit = limit"
| "feed ((s, now) # rest) limit = feed rest (update_limit s now limit)"

section \<open>Printing numbers\<close>

text \<open>The decimal digits \<^verbatim>\<open>printf\<close> writes for \<^verbatim>\<open>%d\<close> and \<^verbatim>\<open>%lld\<close>.\<close>

function digits :: "int \<Rightarrow> string" where
  "digits n =
     (if n < 10 then [char_of (48 + n)]
      else digits (n div 10) @ [char_of (48 + n mod 10)])"
  by pat_completeness auto
termination
  by (relation "measure nat") auto

declare digits.simps [simp del]

definition show_int :: "int \<Rightarrow> string" where
  "show_int i = (if i < 0 then CHR ''-'' # digits (- i) else digits i)"

section \<open>The type double\<close>

text \<open>
  A finite \<^verbatim>\<open>double\<close> is the rational number it denotes. Every arithmetic operation
  of the source is the exact operation followed by \<open>rnd64\<close>, the rounding of IEEE 754
  binary64 (53 significant bits, ties to even, gradual underflow at exponent -1074).
  Infinities and NaN are not values of the model: a magnitude beyond the finite range
  stays a (large) rational, and in \<^verbatim>\<open>get_val\<close> every such value ends in the conversion to
  \<^verbatim>\<open>int64_t\<close>, which is out of range for both.
\<close>

type_synonym double = rat

definition pow2 :: "int \<Rightarrow> rat" where
  "pow2 k = (if 0 \<le> k then 2 ^ nat k else 1 / 2 ^ nat (- k))"

text \<open>\<open>ilog2 x\<close> is the integer part of the binary logarithm of a positive \<open>x\<close>.\<close>

definition ilog2 :: "rat \<Rightarrow> int" where
  "ilog2 x =
     (if 1 \<le> x then bitlen \<lfloor>x\<rfloor> - 1
      else (let y = 1 / x; k = bitlen \<lfloor>y\<rfloor> - 1
            in if y = pow2 k then - k else - k - 1))"

text \<open>Rounding to the nearest integer, a tie going to the even one.\<close>

definition rne :: "rat \<Rightarrow> int" where
  "rne x =
     (let f = \<lfloor>x\<rfloor>; d = x - of_int f
      in if d < 1 / 2 then f
         else if 1 / 2 < d then f + 1
         else if even f then f else f + 1)"

definition rnd64 :: "rat \<Rightarrow> double" where
  "rnd64 x =
     (if x = 0 then 0
      else (let e = max (ilog2 \<bar>x\<bar> - 52) (- 1074)
            in of_int (rne (x / pow2 e)) * pow2 e))"

definition dadd :: "double \<Rightarrow> double \<Rightarrow> double" where
  "dadd x y = rnd64 (x + y)"

definition dsub :: "double \<Rightarrow> double \<Rightarrow> double" where
  "dsub x y = rnd64 (x - y)"

definition dmul :: "double \<Rightarrow> double \<Rightarrow> double" where
  "dmul x y = rnd64 (x * y)"

definition ddiv :: "double \<Rightarrow> double \<Rightarrow> double" where
  "ddiv x y = rnd64 (x / y)"

text \<open>The conversion of an \<^verbatim>\<open>int64_t\<close> to \<^verbatim>\<open>double\<close>.\<close>

definition ll2d :: "int64_t \<Rightarrow> double" where
  "ll2d v = rnd64 (of_int (sint v))"

text \<open>
  The conversion of a \<^verbatim>\<open>double\<close> to \<^verbatim>\<open>int64_t\<close>: the fraction is discarded; C leaves
  the result undefined when the integral part is not representable.
\<close>

definition d2ll :: "double \<Rightarrow> error + int64_t" where
  "d2ll x =
     (let t = (if 0 \<le> x then \<lfloor>x\<rfloor> else - \<lfloor>- x\<rfloor>)
      in if - (2 ^ 63) \<le> t \<and> t < 2 ^ 63 then Inr (word_of_int t)
         else Inl Undefined_conversion)"

text \<open>
  \<^verbatim>\<open>printf("%.2f", x)\<close>: the exact value of \<open>x\<close> rounded to two decimals, ties to even.
  The \<^verbatim>\<open>double\<close>s printed by \<^verbatim>\<open>print_sensor\<close> are quotients of an integer, never a
  negative zero, so the sign is that of the value.
\<close>

definition fmt_2f :: "double \<Rightarrow> string" where
  "fmt_2f x =
     (let n = rne (\<bar>x\<bar> * 100)
      in (if x < 0 then [CHR ''-''] else []) @ digits (n div 100) @ [CHR ''.''] @
         [char_of (48 + n mod 100 div 10), char_of (48 + n mod 10)])"

section \<open>print_sensor\<close>

definition RFBUFSIZ :: nat where
  "RFBUFSIZ = 28"

definition drvstat :: "string option list" where
  "drvstat = [None, Some ''empty'', Some ''ready'', Some ''powerup'', Some ''online'',
     Some ''idle'', Some ''active'', Some ''rebuild'', Some ''powerdown'', Some ''fail'',
     Some ''pfail'']"

text \<open>What \<^verbatim>\<open>snprintf(fbuf, RFBUFSIZ, ...)\<close> leaves in \<^verbatim>\<open>fbuf\<close>.\<close>

definition snprintf_rf :: "string \<Rightarrow> string" where
  "snprintf_rf s = take (RFBUFSIZ - 1) s"

text \<open>
  Lines 350-398. The result is the content of the ring buffer slot the call returns; in
  \<^verbatim>\<open>report\<close> every result is copied before the next call, so the rotation of the four
  slots is not observable and is left out.
\<close>

definition print_sensor :: "sensor_type \<Rightarrow> int64_t \<Rightarrow> string" where
  "print_sensor t v =
     (case t of
        SENSOR_TEMP \<Rightarrow>
          snprintf_rf (fmt_2f (ddiv (ll2d (v - 273150000)) 1000000) @ '' degC'')
      | SENSOR_FANRPM \<Rightarrow> snprintf_rf (show_int (sint v) @ '' RPM'')
      | SENSOR_VOLTS_DC \<Rightarrow> snprintf_rf (fmt_2f (ddiv (ll2d v) 1000000) @ '' V DC'')
      | SENSOR_AMPS \<Rightarrow> snprintf_rf (fmt_2f (ddiv (ll2d v) 1000000) @ '' A'')
      | SENSOR_INDICATOR \<Rightarrow> snprintf_rf (if v \<noteq> 0 then ''On'' else ''Off'')
      | SENSOR_INTEGER \<Rightarrow> snprintf_rf (show_int (sint v) @ '' raw'')
      | SENSOR_PERCENT \<Rightarrow> snprintf_rf (fmt_2f (ddiv (ll2d v) 1000) @ [CHR ''%''])
      | SENSOR_LUX \<Rightarrow> snprintf_rf (fmt_2f (ddiv (ll2d v) 1000000) @ '' lx'')
      | SENSOR_DRIVE \<Rightarrow>
          (if 0 < sint v \<and> sint v < int (length drvstat) then
             snprintf_rf (case drvstat ! nat (sint v) of Some s \<Rightarrow> s | None \<Rightarrow> ''(null)'')
           else snprintf_rf (show_int (sint v) @ '' ???''))
      | SENSOR_OTHER k \<Rightarrow> snprintf_rf (show_int (sint v) @ '' ???''))"

section \<open>report: the command template and the reporting pass\<close>

datatype priority = LOG_ALERT | LOG_CRIT | LOG_INFO

text \<open>
  What a pass does to the outside: a \<^verbatim>\<open>syslog\<close> line, or a call of \<^verbatim>\<open>execute\<close>.
  \<open>Execute_unterminated\<close> is the call of \<^verbatim>\<open>execute(buf)\<close> on a buffer whose bytes are all
  written and none of them is the terminating NUL.
\<close>

datatype event =
    Syslog priority string
  | Execute string
  | Execute_unterminated string

datatype expansion =
    Done string
  | Unterminated string
  | Overflow

text \<open>
  Lines 298-330: the text \<^verbatim>\<open>snprintf\<close> is asked to append for the character after a
  percent sign. \<open>sensor_type_s\<close> is the table of type names of \<^verbatim>\<open>sys/sensors.h\<close>.
\<close>

definition placeholder :: "(sensor_type \<Rightarrow> string) \<Rightarrow> limits_t \<Rightarrow> char \<Rightarrow> string" where
  "placeholder sensor_type_s limit c =
     (if c = CHR ''x'' then dxname limit
      else if c = CHR ''t'' then sensor_type_s (type limit)
      else if c = CHR ''n'' then show_int (numt limit)
      else if c = CHR ''2'' then print_sensor (type limit) (last_val limit)
      else if c = CHR ''3'' then print_sensor (type limit) (lower limit)
      else if c = CHR ''4'' then print_sensor (type limit) (upper limit)
      else [CHR ''%'', c])"

text \<open>
  Lines 283-338: the loop that fills \<^verbatim>\<open>buf\<close>. \<open>len\<close> is \<^verbatim>\<open>sizeof(buf)\<close>, that is
  \<^verbatim>\<open>BUFSIZ\<close> of \<^verbatim>\<open>stdio.h\<close>; \<open>cmd\<close> is the part of the template from index \<open>i\<close> on, its
  end being the NUL; \<open>buf\<close> holds the \<open>n\<close> bytes written so far. \<open>Done\<close> is a \<^verbatim>\<open>break\<close>
  after the NUL is stored, \<open>Unterminated\<close> the exit through \<^verbatim>\<open>n < len\<close> failing,
  \<open>Overflow\<close> the branch that logs and returns.
\<close>

fun expand ::
  "nat \<Rightarrow> (sensor_type \<Rightarrow> string) \<Rightarrow> limits_t \<Rightarrow> string \<Rightarrow> string \<Rightarrow> expansion" where
  "expand len sensor_type_s limit [] buf =
     (if length buf < len then Done buf else Unterminated buf)"
| "expand len sensor_type_s limit [c] buf =
     (if length buf < len then
        (if c \<noteq> CHR ''%'' then expand len sensor_type_s limit [] (buf @ [c])
         else Done buf)
      else Unterminated buf)"
| "expand len sensor_type_s limit (c # d # cmd) buf =
     (if length buf < len then
        (if c \<noteq> CHR ''%'' then expand len sensor_type_s limit (d # cmd) (buf @ [c])
         else (let r = placeholder sensor_type_s limit d
               in if len - length buf \<le> length r then Overflow
                  else expand len sensor_type_s limit cmd (buf @ r)))
      else Unterminated buf)"

text \<open>Lines 272-275: the alert line.\<close>

definition alert_line :: "(sensor_type \<Rightarrow> string) \<Rightarrow> limits_t \<Rightarrow> string" where
  "alert_line sensor_type_s limit =
     ''hw.sensors.'' @ dxname limit @ ''.'' @ sensor_type_s (type limit) @
     show_int (numt limit) @ '': '' @
     (if status limit \<noteq> SENSOR_S_OK then ''exceed'' else ''within'') @
     '' limits, value: '' @ print_sensor (type limit) (last_val limit)"

text \<open>
  Lines 263-343: the reporting pass, as the list of its effects in order. On \<open>Overflow\<close>
  the source executes \<^verbatim>\<open>return\<close>, so the pass ends there; otherwise \<^verbatim>\<open>execute\<close> is called
  when \<^verbatim>\<open>buf[0]\<close> is not the NUL.
\<close>

fun report ::
  "nat \<Rightarrow> (sensor_type \<Rightarrow> string) \<Rightarrow> time_t \<Rightarrow> limits_t list \<Rightarrow> event list" where
  "report len sensor_type_s last_report [] = []"
| "report len sensor_type_s last_report (limit # rest) =
     (if status_changed limit \<le> last_report then report len sensor_type_s last_report rest
      else Syslog LOG_ALERT (alert_line sensor_type_s limit) #
        (case command limit of
           None \<Rightarrow> report len sensor_type_s last_report rest
         | Some cmd \<Rightarrow>
             (case expand len sensor_type_s limit cmd [] of
                Overflow \<Rightarrow> [Syslog LOG_CRIT ''could not parse command'']
              | Done buf \<Rightarrow>
                  (if buf \<noteq> [] then [Execute buf] else []) @
                  report len sensor_type_s last_report rest
              | Unterminated buf \<Rightarrow>
                  (if buf \<noteq> [] then [Execute_unterminated buf] else []) @
                  report len sensor_type_s last_report rest)))"

section \<open>get_val: thresholds from the configuration\<close>

text \<open>
  Modelled from the spec: \<^verbatim>\<open>strtod\<close> is a function of the C library, not among the
  sources. \<^verbatim>\<open>get_val\<close> takes it as a parameter that returns the value and the unparsed
  rest of the string (the spec's numeric prefix and trailing unit suffix); the rest being
  the whole string is \<^verbatim>\<open>buf == p\<close>. \<open>strtod_dec\<close> is \<^verbatim>\<open>strtod\<close> on decimal input:
  white space, a sign, digits with an optional fraction, an optional exponent, correctly
  rounded. The hexadecimal, infinity and NaN forms are not modelled.
\<close>

definition isspace :: "char \<Rightarrow> bool" where
  "isspace c = (c \<in> set [CHR '' '', CHR 0x09, CHR 0x0A, CHR 0x0B, CHR 0x0C, CHR 0x0D])"

definition isdigit :: "char \<Rightarrow> bool" where
  "isdigit c = (c \<in> set ''0123456789'')"

definition dec_val :: "string \<Rightarrow> nat" where
  "dec_val ds = foldl (\<lambda>a c. 10 * a + (of_char c - 48)) 0 ds"

definition pow10 :: "int \<Rightarrow> rat" where
  "pow10 k = (if 0 \<le> k then 10 ^ nat k else 1 / 10 ^ nat (- k))"

definition exponent_part :: "string \<Rightarrow> int \<times> string" where
  "exponent_part s =
     (case s of
        [] \<Rightarrow> (0, s)
      | c # r \<Rightarrow>
          if c = CHR ''e'' \<or> c = CHR ''E'' then
            (let neg = (case r of [] \<Rightarrow> False | d # _ \<Rightarrow> d = CHR ''-'');
                 r' = (case r of [] \<Rightarrow> r
                       | d # t \<Rightarrow> if d = CHR ''-'' \<or> d = CHR ''+'' then t else r);
                 ds = takeWhile isdigit r'
             in if ds = [] then (0, s)
                else ((if neg then - int (dec_val ds) else int (dec_val ds)),
                      dropWhile isdigit r'))
          else (0, s))"

definition strtod_dec :: "string \<Rightarrow> double \<times> string" where
  "strtod_dec s =
     (let s1 = dropWhile isspace s;
          neg = (case s1 of [] \<Rightarrow> False | c # _ \<Rightarrow> c = CHR ''-'');
          s2 = (case s1 of [] \<Rightarrow> s1
                | c # t \<Rightarrow> if c = CHR ''-'' \<or> c = CHR ''+'' then t else s1);
          ip = takeWhile isdigit s2;
          s3 = dropWhile isdigit s2;
          fp = (case s3 of [] \<Rightarrow> []
                | c # t \<Rightarrow> if c = CHR ''.'' then takeWhile isdigit t else []);
          s4 = (case s3 of [] \<Rightarrow> s3
                | c # t \<Rightarrow> if c = CHR ''.'' then dropWhile isdigit t else s3)
      in if ip = [] \<and> fp = [] then (0, s)
         else (let m = of_nat (dec_val (ip @ fp)) * pow10 (- int (length fp));
                   (ex, s5) = exponent_part s4
               in (rnd64 ((if neg then - m else m) * pow10 ex), s5)))"

definition LLONG_MAX :: int64_t where
  "LLONG_MAX = 0x7FFFFFFFFFFFFFFF"

definition LLONG_MIN :: int64_t where
  "LLONG_MIN = 0x8000000000000000"

text \<open>
  Lines 441-499. \<open>buf\<close> is \<open>None\<close> for the null pointer; \<open>upper_flag\<close> is the \<^verbatim>\<open>int\<close>
  argument \<^verbatim>\<open>upper\<close>. \<^verbatim>\<open>err\<close> and \<^verbatim>\<open>errx\<close> end the process: \<open>Fatal\<close> with the formatted
  message. The constant \<^verbatim>\<open>273.16\<close> is the \<^verbatim>\<open>double\<close> nearest to it; products are taken left
  to right. The \<^verbatim>\<open>printf\<close> of the unit letter to the standard output is not represented.
\<close>

definition get_val ::
  "(string \<Rightarrow> double \<times> string) \<Rightarrow> string option \<Rightarrow> int \<Rightarrow> sensor_type \<Rightarrow> error + int64_t" where
  "get_val strtod buf upper_flag t =
     (case buf of
        None \<Rightarrow> (if upper_flag \<noteq> 0 then Inr LLONG_MAX else Inr LLONG_MIN)
      | Some b \<Rightarrow>
          (let (val, p) = strtod b
           in if p = b then Inl (Fatal (''incorrect value: '' @ b))
              else
                (case t of
                   SENSOR_TEMP \<Rightarrow>
                     (case p of
                        [] \<Rightarrow> Inl (Fatal (''unknown unit '' @ p @ '' for temp sensor''))
                      | u # _ \<Rightarrow>
                          if u = CHR ''C'' then
                            d2ll (dmul (dmul (dadd val (rnd64 (27316 / 100))) 1000) 1000)
                          else if u = CHR ''F'' then
                            d2ll (dmul (dmul
                              (dadd (dmul (ddiv (dsub val 32) 9) 5) (rnd64 (27316 / 100)))
                              1000) 1000)
                          else Inl (Fatal (''unknown unit '' @ p @ '' for temp sensor'')))
                 | SENSOR_FANRPM \<Rightarrow> d2ll val
                 | SENSOR_VOLTS_DC \<Rightarrow>
                     (case p of
                        [] \<Rightarrow> Inl (Fatal (''unknown unit '' @ p @ '' for voltage sensor''))
                      | u # _ \<Rightarrow>
                          if u \<noteq> CHR ''V'' then
                            Inl (Fatal (''unknown unit '' @ p @ '' for voltage sensor''))
                          else d2ll (dmul (dmul val 1000) 1000))
                 | SENSOR_PERCENT \<Rightarrow> d2ll (dmul val 1000)
                 | SENSOR_INDICATOR \<Rightarrow> d2ll val
                 | SENSOR_INTEGER \<Rightarrow> d2ll val
                 | SENSOR_DRIVE \<Rightarrow> d2ll val
                 | SENSOR_LUX \<Rightarrow> d2ll (dmul (dmul val 1000) 1000)
                 | SENSOR_AMPS \<Rightarrow> Inl (Fatal ''unsupported sensor type'')
                 | SENSOR_OTHER k \<Rightarrow> Inl (Fatal ''unsupported sensor type''))))"

section \<open>parse_config and the two loads of main\<close>

text \<open>
  The capability database: \<open>cgetent\<close> maps the name of a record to the record, \<open>None\<close>
  when \<^verbatim>\<open>cgetent\<close> does not return 0; a record maps a capability name to its string,
  \<open>None\<close> when \<^verbatim>\<open>cgetstr\<close> returns a negative value.
\<close>

type_synonym caprec = "string \<Rightarrow> string option"
type_synonym capdb = "string \<Rightarrow> caprec option"

text \<open>Lines 416-417: the name looked up, cut to the 23 characters \<^verbatim>\<open>node\<close> holds.\<close>

definition node :: "(sensor_type \<Rightarrow> string) \<Rightarrow> limits_t \<Rightarrow> string" where
  "node sensor_type_s p =
     take 23 (''hw.sensors.'' @ dxname p @ ''.'' @ sensor_type_s (type p) @ show_int (numt p))"

text \<open>Lines 416-435: the body of the loop, for one entry.\<close>

definition config_limit ::
  "(string \<Rightarrow> double \<times> string) \<Rightarrow> (sensor_type \<Rightarrow> string) \<Rightarrow> capdb \<Rightarrow> limits_t
     \<Rightarrow> error + limits_t" where
  "config_limit strtod sensor_type_s cgetent p =
     (case cgetent (node sensor_type_s p) of
        None \<Rightarrow> Inr (p\<lparr>watch := 0\<rparr>)
      | Some buf \<Rightarrow>
          (case get_val strtod (buf ''low'') 0 (type p) of
             Inl e \<Rightarrow> Inl e
           | Inr lo \<Rightarrow>
               (case get_val strtod (buf ''high'') 1 (type p) of
                  Inl e \<Rightarrow> Inl e
                | Inr hi \<Rightarrow>
                    (let p = p\<lparr>watch := 1, lower := lo, upper := hi\<rparr>
                     in case buf ''command'' of
                          None \<Rightarrow> Inr p
                        | Some ebuf \<Rightarrow> Inr (p\<lparr>command := Some ebuf\<rparr>)))))"

text \<open>
  Lines 400-439: the entries are updated in place, in list order; the result is
  \<^verbatim>\<open>watch_cnt\<close> and the list, or the error that ended the process.
\<close>

fun parse_config ::
  "(string \<Rightarrow> double \<times> string) \<Rightarrow> (sensor_type \<Rightarrow> string) \<Rightarrow> capdb \<Rightarrow> limits_t list
     \<Rightarrow> error + (int \<times> limits_t list)" where
  "parse_config strtod sensor_type_s cgetent [] = Inr (0, [])"
| "parse_config strtod sensor_type_s cgetent (p # rest) =
     (case config_limit strtod sensor_type_s cgetent p of
        Inl e \<Rightarrow> Inl e
      | Inr p' \<Rightarrow>
          (case parse_config strtod sensor_type_s cgetent rest of
             Inl e \<Rightarrow> Inl e
           | Inr (watch_cnt, rest') \<Rightarrow>
               Inr ((if watch p' \<noteq> 0 then watch_cnt + 1 else watch_cnt), p' # rest')))"

text \<open>Lines 147-151 of \<^verbatim>\<open>main\<close>: the initial load.\<close>

definition initial_load ::
  "(string \<Rightarrow> double \<times> string) \<Rightarrow> (sensor_type \<Rightarrow> string) \<Rightarrow> capdb \<Rightarrow> limits_t list
     \<Rightarrow> error + limits_t list" where
  "initial_load strtod sensor_type_s cgetent limits =
     (case parse_config strtod sensor_type_s cgetent limits of
        Inl e \<Rightarrow> Inl e
      | Inr (watch_cnt, limits') \<Rightarrow>
          if watch_cnt = - 1 then Inl (Fatal ''error in config file'')
          else if watch_cnt = 0 then Inl (Fatal ''no watches defined'')
          else Inr limits')"

text \<open>
  Lines 165-174 of \<^verbatim>\<open>main\<close>: the reload at the top of the loop, when the flag is set.
  The result is the line logged and the watch list the loop goes on with, or the error
  that ended the process.
\<close>

definition reload_config ::
  "(string \<Rightarrow> double \<times> string) \<Rightarrow> (sensor_type \<Rightarrow> string) \<Rightarrow> capdb \<Rightarrow> string
     \<Rightarrow> limits_t list \<Rightarrow> error + (event \<times> limits_t list)" where
  "reload_config strtod sensor_type_s cgetent configfile limits =
     (case parse_config strtod sensor_type_s cgetent limits of
        Inl e \<Rightarrow> Inl e
      | Inr (watch_cnt, limits') \<Rightarrow>
          if watch_cnt = - 1 then
            Inr (Syslog LOG_CRIT (''error in config file '' @ configfile), limits')
          else
            Inr (Syslog LOG_INFO
                   (''configuration reloaded, '' @ show_int watch_cnt @ '' watches''),
                 limits'))"

section \<open>Example inputs\<close>

text \<open>
  Modelled from the spec: \<^verbatim>\<open>BUFSIZ\<close> is a macro of \<^verbatim>\<open>stdio.h\<close> and \<^verbatim>\<open>sensor_type_s\<close> a
  table of \<^verbatim>\<open>sys/sensors.h\<close>; neither file is among the sources. The functions above take
  both as parameters. The examples use the value 1024 and the names below (the spec's
  type name for a temperature sensor is \<^verbatim>\<open>temp\<close>).
\<close>

definition BUFSIZ :: nat where
  "BUFSIZ = 1024"

definition type_names :: "sensor_type \<Rightarrow> string" where
  "type_names t =
     (case t of
        SENSOR_TEMP \<Rightarrow> ''temp''
      | SENSOR_FANRPM \<Rightarrow> ''fan''
      | SENSOR_VOLTS_DC \<Rightarrow> ''volt''
      | SENSOR_AMPS \<Rightarrow> ''current''
      | SENSOR_INDICATOR \<Rightarrow> ''indicator''
      | SENSOR_INTEGER \<Rightarrow> ''raw''
      | SENSOR_PERCENT \<Rightarrow> ''percent''
      | SENSOR_LUX \<Rightarrow> ''illuminance''
      | SENSOR_DRIVE \<Rightarrow> ''drive''
      | SENSOR_OTHER k \<Rightarrow> ''undefined'')"

text \<open>
  A watched temperature sensor in confirmed CRIT, with bounds 280 K and 350 K, and the
  same sensor in confirmed OK.
\<close>

definition crit_limit :: limits_t where
  "crit_limit =
     \<lparr>dxname = ''cpu0'', dev = 0, type = SENSOR_TEMP, numt = 0, last_val = 380000000,
      lower = 280000000, upper = 350000000, command = None, status_changed = 100,
      status = SENSOR_S_CRIT, status2 = SENSOR_S_CRIT, count = 3, watch = 1\<rparr>"

definition ok_limit :: limits_t where
  "ok_limit =
     \<lparr>dxname = ''cpu0'', dev = 0, type = SENSOR_TEMP, numt = 0, last_val = 300000000,
      lower = 280000000, upper = 350000000, command = None, status_changed = 10,
      status = SENSOR_S_OK, status2 = SENSOR_S_OK, count = 0, watch = 1\<rparr>"

definition crit_sample :: sensor where
  "crit_sample = \<lparr>svalue = 380000000, sstatus = SENSOR_S_UNSPEC\<rparr>"

definition ok_sample :: sensor where
  "ok_sample = \<lparr>svalue = 300000000, sstatus = SENSOR_S_UNSPEC\<rparr>"

text \<open>
  The entry \<open>ok_limit\<close> after the samples CRIT, CRIT, CRIT, OK: the OK sample equals the
  confirmed status, so lines 228-241 leave the pending CRIT and its streak of 2 in place.
\<close>

definition stale_limit :: limits_t where
  "stale_limit = ok_limit\<lparr>status2 := SENSOR_S_CRIT, count := 2\<rparr>"

text \<open>Bounds that contradict each other, and a sample equal to the upper one.\<close>

definition crossed_limit :: limits_t where
  "crossed_limit = ok_limit\<lparr>lower := 10, upper := 5\<rparr>"

definition upper_sample :: sensor where
  "upper_sample = \<lparr>svalue = 5, sstatus = SENSOR_S_UNSPEC\<rparr>"

text \<open>A second sensor, a sensor no longer watched, and one of a type without thresholds.\<close>

definition second_limit :: limits_t where
  "second_limit = crit_limit\<lparr>dxname := ''cpu1'', dev := 1\<rparr>"


definition amps_limit :: limits_t where
  "amps_limit = ok_limit\<lparr>dxname := ''lm0'', type := SENSOR_AMPS\<rparr>"

text \<open>A command template that fills the buffer up to its last four bytes before \<^verbatim>\<open>%x\<close>.\<close>

definition overflow_limit :: limits_t where
  "overflow_limit = crit_limit\<lparr>command := Some (replicate 1020 (CHR ''a'') @ ''%x'')\<rparr>"

text \<open>Configurations: one record for \<^verbatim>\<open>hw.sensors.cpu0.temp0\<close>, or for the current sensor.\<close>

definition bad_number_db :: capdb where
  "bad_number_db name =
     (if name = ''hw.sensors.cpu0.temp0''
      then Some (\<lambda>k. if k = ''low'' then Some ''abc'' else None) else None)"

definition bad_unit_db :: capdb where
  "bad_unit_db name =
     (if name = ''hw.sensors.cpu0.temp0''
      then Some (\<lambda>k. if k = ''high'' then Some ''90K'' else None) else None)"

definition cpu0_db :: capdb where
  "cpu0_db name =
     (if name = ''hw.sensors.cpu0.temp0''
      then Some (\<lambda>k. if k = ''high'' then Some ''80C'' else None) else None)"

definition mixed_db :: capdb where
  "mixed_db name =
     (if name = ''hw.sensors.lm0.current0''
      then Some (\<lambda>k. if k = ''command'' then Some ''beep'' else None)
      else if name = ''hw.sensors.cpu0.temp0''
      then Some (\<lambda>k. if k = ''high'' then Some ''80C'' else None)
      else None)"

definition empty_db :: capdb where
  "empty_db name = None"

text \<open>
  What a reload leaves untouched in an entry: the identity of the sensor and its run-time
  state (last value, confirmed and pending status, streak, time of the last change).
\<close>

definition same_state :: "limits_t \<Rightarrow> limits_t \<Rightarrow> bool" where
  "same_state p p' \<longleftrightarrow>
     dxname p' = dxname p \<and> dev p' = dev p \<and> type p' = type p \<and> numt p' = numt p \<and>
     last_val p' = last_val p \<and> status p' = status p \<and> status2 p' = status2 p \<and>
     count p' = count p \<and> status_changed p' = status_changed p"

section \<open>The hysteresis engine: bounds, recovery, escalation\<close>

lemma newstatus_last_val: "newstatus s (limit\<lparr>last_val := v\<rparr>) = newstatus s limit"
  by (simp add: newstatus_def)

lemma newstatus_bounds:
  "lower l' = lower l \<Longrightarrow> upper l' = upper l \<Longrightarrow> newstatus s l' = newstatus s l"
  by (simp add: newstatus_def)

text \<open>The four branches of lines 228-241, by the candidate and the state before the sample.\<close>

lemma update_limit_cases:
  "update_limit s now limit =
     (let new = newstatus s limit; l = limit\<lparr>last_val := svalue s\<rparr>
      in if status limit = new then l
         else if new = SENSOR_S_OK then
           l\<lparr>status2 := new, status := new, status_changed := now\<rparr>
         else if status2 limit \<noteq> new then l\<lparr>status2 := new, count := 0\<rparr>
         else if 2 \<le> count limit then
           l\<lparr>count := count limit + 1, status2 := new, status := new, status_changed := now\<rparr>
         else l\<lparr>count := count limit + 1\<rparr>)"
  by (simp add: update_limit_def Let_def newstatus_last_val)

lemma update_limit_bounds:
  "lower (update_limit s now l) = lower l" "upper (update_limit s now l) = upper l"
  by (simp_all add: update_limit_cases Let_def)

lemma newstatus_crit_sample: "newstatus crit_sample ok_limit = SENSOR_S_CRIT"
  by (simp add: newstatus_def crit_sample_def ok_limit_def word_sless_alt)

lemma newstatus_ok_sample: "newstatus ok_sample crit_limit = SENSOR_S_OK"
  by (simp add: newstatus_def ok_sample_def crit_limit_def word_sless_alt)

lemma newstatus_crit_sample_stale: "newstatus crit_sample stale_limit = SENSOR_S_CRIT"
  by (simp add: newstatus_def crit_sample_def stale_limit_def ok_limit_def word_sless_alt)

text \<open>
  C1, as stated, fails in both directions. Not on the third: from confirmed OK with
  pending OK, three consecutive samples whose candidate is CRIT leave the confirmed
  status OK and the change time untouched; the third only brings the streak counter to
  2. And earlier than the third: a following OK sample equals the confirmed status and
  resets nothing, so the entry is \<open>stale_limit\<close> (confirmed OK, pending CRIT, counter 2),
  and the first CRIT sample after it confirms CRIT at once.
\<close>

theorem third_sample_does_not_confirm:
  "newstatus crit_sample ok_limit = SENSOR_S_CRIT \<and>
   status (feed [(crit_sample, 20), (crit_sample, 40), (crit_sample, 60)] ok_limit) = SENSOR_S_OK \<and>
   status_changed (feed [(crit_sample, 20), (crit_sample, 40), (crit_sample, 60)] ok_limit) = 10 \<and>
   count (feed [(crit_sample, 20), (crit_sample, 40), (crit_sample, 60)] ok_limit) = 2 \<and>
   feed [(crit_sample, 20), (crit_sample, 40), (crit_sample, 60), (ok_sample, 80)] ok_limit =
     stale_limit \<and>
   status stale_limit = SENSOR_S_OK \<and>
   newstatus crit_sample stale_limit = SENSOR_S_CRIT \<and>
   status (feed [(crit_sample, 100)] stale_limit) = SENSOR_S_CRIT \<and>
   status2 (feed [(crit_sample, 100)] stale_limit) = SENSOR_S_CRIT \<and>
   status_changed (feed [(crit_sample, 100)] stale_limit) = 100"
  by (simp add: update_limit_def newstatus_def crit_sample_def ok_sample_def ok_limit_def
      stale_limit_def word_sless_alt)

text \<open>
  C1, amended: let the confirmed status differ from a candidate \<open>c\<close> other than OK, and
  let consecutive samples have candidate \<open>c\<close>. Confirmation falls on the sample that
  brings the streak counter to 3.
  When the pending status differs from \<open>c\<close> too, that is exactly the fourth sample: the
  first makes \<open>c\<close> pending with the counter at 0, the second and third raise the counter
  to 1 and 2 and leave the confirmed status and the change time as they were, and the
  fourth raises it to 3, sets confirmed and pending to \<open>c\<close> and stamps its own time.
  When \<open>c\<close> is already pending (a streak that samples equal to the confirmed status have
  not reset), a sample raises the counter by one; it confirms \<open>c\<close> and stamps its time
  when the counter was 2 or more, and otherwise leaves the confirmed status and the change
  time as they were.
\<close>

theorem escalation_confirms_when_counter_reaches_three:
  assumes ne: "status l \<noteq> c" "c \<noteq> SENSOR_S_OK"
    and c: "newstatus s1 l = c" "newstatus s2 l = c" "newstatus s3 l = c" "newstatus s4 l = c"
  shows "(status2 l \<noteq> c \<longrightarrow>
           status (feed [(s1, t1)] l) = status l \<and>
           status2 (feed [(s1, t1)] l) = c \<and>
           count (feed [(s1, t1)] l) = 0 \<and>
           status_changed (feed [(s1, t1)] l) = status_changed l \<and>
           status (feed [(s1, t1), (s2, t2)] l) = status l \<and>
           status2 (feed [(s1, t1), (s2, t2)] l) = c \<and>
           count (feed [(s1, t1), (s2, t2)] l) = 1 \<and>
           status_changed (feed [(s1, t1), (s2, t2)] l) = status_changed l \<and>
           status (feed [(s1, t1), (s2, t2), (s3, t3)] l) = status l \<and>
           status2 (feed [(s1, t1), (s2, t2), (s3, t3)] l) = c \<and>
           count (feed [(s1, t1), (s2, t2), (s3, t3)] l) = 2 \<and>
           status_changed (feed [(s1, t1), (s2, t2), (s3, t3)] l) = status_changed l \<and>
           status (feed [(s1, t1), (s2, t2), (s3, t3), (s4, t4)] l) = c \<and>
           status2 (feed [(s1, t1), (s2, t2), (s3, t3), (s4, t4)] l) = c \<and>
           count (feed [(s1, t1), (s2, t2), (s3, t3), (s4, t4)] l) = 3 \<and>
           status_changed (feed [(s1, t1), (s2, t2), (s3, t3), (s4, t4)] l) = t4) \<and>
         (status2 l = c \<and> count l < 2 \<longrightarrow>
           status (feed [(s1, t1)] l) = status l \<and>
           status2 (feed [(s1, t1)] l) = c \<and>
           count (feed [(s1, t1)] l) = count l + 1 \<and>
           status_changed (feed [(s1, t1)] l) = status_changed l) \<and>
         (status2 l = c \<and> 2 \<le> count l \<longrightarrow>
           status (feed [(s1, t1)] l) = c \<and>
           status2 (feed [(s1, t1)] l) = c \<and>
           count (feed [(s1, t1)] l) = count l + 1 \<and>
           status_changed (feed [(s1, t1)] l) = t1)"
proof (intro conjI impI)
  assume fresh: "status2 l \<noteq> c"
  define l1 where "l1 = update_limit s1 t1 l"
  define l2 where "l2 = update_limit s2 t2 l1"
  define l3 where "l3 = update_limit s3 t3 l2"
  define l4 where "l4 = update_limit s4 t4 l3"
  have b1: "lower l1 = lower l" "upper l1 = upper l"
    by (simp_all add: l1_def update_limit_bounds)
  have b2: "lower l2 = lower l" "upper l2 = upper l"
    by (simp_all add: l2_def update_limit_bounds b1)
  have b3: "lower l3 = lower l" "upper l3 = upper l"
    by (simp_all add: l3_def update_limit_bounds b2)
  have n1: "newstatus s2 l1 = c" using c b1 by (simp add: newstatus_bounds [of l1 l])
  have n2: "newstatus s3 l2 = c" using c b2 by (simp add: newstatus_bounds [of l2 l])
  have n3: "newstatus s4 l3 = c" using c b3 by (simp add: newstatus_bounds [of l3 l])
  have first: "status l1 = status l" "status2 l1 = c" "count l1 = 0"
    "status_changed l1 = status_changed l"
    using ne fresh c by (simp_all add: l1_def update_limit_cases)
  have second: "status l2 = status l" "status2 l2 = c" "count l2 = 1"
    "status_changed l2 = status_changed l"
    using ne n1 first by (simp_all add: l2_def update_limit_cases)
  have third: "status l3 = status l" "status2 l3 = c" "count l3 = 2"
    "status_changed l3 = status_changed l"
    using ne n2 second by (simp_all add: l3_def update_limit_cases)
  have fourth: "status l4 = c" "status2 l4 = c" "count l4 = 3" "status_changed l4 = t4"
    using ne n3 third by (simp_all add: l4_def update_limit_cases)
  have f1: "feed [(s1, t1)] l = l1"
    and f2: "feed [(s1, t1), (s2, t2)] l = l2"
    and f3: "feed [(s1, t1), (s2, t2), (s3, t3)] l = l3"
    and f4: "feed [(s1, t1), (s2, t2), (s3, t3), (s4, t4)] l = l4"
    by (simp_all add: l1_def l2_def l3_def l4_def)
  show "status (feed [(s1, t1)] l) = status l"
    and "status2 (feed [(s1, t1)] l) = c"
    and "count (feed [(s1, t1)] l) = 0"
    and "status_changed (feed [(s1, t1)] l) = status_changed l"
    by (simp_all only: f1 first)
  show "status (feed [(s1, t1), (s2, t2)] l) = status l"
    and "status2 (feed [(s1, t1), (s2, t2)] l) = c"
    and "count (feed [(s1, t1), (s2, t2)] l) = 1"
    and "status_changed (feed [(s1, t1), (s2, t2)] l) = status_changed l"
    by (simp_all only: f2 second)
  show "status (feed [(s1, t1), (s2, t2), (s3, t3)] l) = status l"
    and "status2 (feed [(s1, t1), (s2, t2), (s3, t3)] l) = c"
    and "count (feed [(s1, t1), (s2, t2), (s3, t3)] l) = 2"
    and "status_changed (feed [(s1, t1), (s2, t2), (s3, t3)] l) = status_changed l"
    by (simp_all only: f3 third)
  show "status (feed [(s1, t1), (s2, t2), (s3, t3), (s4, t4)] l) = c"
    and "status2 (feed [(s1, t1), (s2, t2), (s3, t3), (s4, t4)] l) = c"
    and "count (feed [(s1, t1), (s2, t2), (s3, t3), (s4, t4)] l) = 3"
    and "status_changed (feed [(s1, t1), (s2, t2), (s3, t3), (s4, t4)] l) = t4"
    by (simp_all only: f4 fourth)
next
  assume pending: "status2 l = c \<and> count l < 2"
  with ne c show "status (feed [(s1, t1)] l) = status l"
    and "status2 (feed [(s1, t1)] l) = c"
    and "count (feed [(s1, t1)] l) = count l + 1"
    and "status_changed (feed [(s1, t1)] l) = status_changed l"
    by (simp_all add: update_limit_cases)
next
  assume pending: "status2 l = c \<and> 2 \<le> count l"
  with ne c show "status (feed [(s1, t1)] l) = c"
    and "status2 (feed [(s1, t1)] l) = c"
    and "count (feed [(s1, t1)] l) = count l + 1"
    and "status_changed (feed [(s1, t1)] l) = t1"
    by (simp_all add: update_limit_cases)
qed

theorem escalation_confirms_when_counter_reaches_three_witness:
  "status ok_limit = SENSOR_S_OK \<and> status2 ok_limit = SENSOR_S_OK \<and>
   newstatus crit_sample ok_limit = SENSOR_S_CRIT \<and>
   status2 (feed [(crit_sample, 20)] ok_limit) = SENSOR_S_CRIT \<and>
   count (feed [(crit_sample, 20)] ok_limit) = 0 \<and>
   count (feed [(crit_sample, 20), (crit_sample, 40)] ok_limit) = 1 \<and>
   status (feed [(crit_sample, 20), (crit_sample, 40), (crit_sample, 60)] ok_limit) = SENSOR_S_OK \<and>
   count (feed [(crit_sample, 20), (crit_sample, 40), (crit_sample, 60)] ok_limit) = 2 \<and>
   status (feed [(crit_sample, 20), (crit_sample, 40), (crit_sample, 60), (crit_sample, 80)]
     ok_limit) = SENSOR_S_CRIT \<and>
   status2 (feed [(crit_sample, 20), (crit_sample, 40), (crit_sample, 60), (crit_sample, 80)]
     ok_limit) = SENSOR_S_CRIT \<and>
   count (feed [(crit_sample, 20), (crit_sample, 40), (crit_sample, 60), (crit_sample, 80)]
     ok_limit) = 3 \<and>
   status_changed (feed [(crit_sample, 20), (crit_sample, 40), (crit_sample, 60), (crit_sample, 80)]
     ok_limit) = 80 \<and>
   status stale_limit = SENSOR_S_OK \<and> status2 stale_limit = SENSOR_S_CRIT \<and>
   count stale_limit = 2 \<and>
   newstatus crit_sample stale_limit = SENSOR_S_CRIT \<and>
   status (feed [(crit_sample, 100)] stale_limit) = SENSOR_S_CRIT \<and>
   count (feed [(crit_sample, 100)] stale_limit) = 3 \<and>
   status_changed (feed [(crit_sample, 100)] stale_limit) = 100"
proof -
  have ok: "status ok_limit = SENSOR_S_OK" "status2 ok_limit = SENSOR_S_OK"
    by (simp_all add: ok_limit_def)
  have stale: "status stale_limit = SENSOR_S_OK" "status2 stale_limit = SENSOR_S_CRIT"
    "count stale_limit = 2"
    by (simp_all add: stale_limit_def ok_limit_def)
  have ne: "status ok_limit \<noteq> SENSOR_S_CRIT" "SENSOR_S_CRIT \<noteq> SENSOR_S_OK"
    by (simp_all add: ok)
  have ne': "status stale_limit \<noteq> SENSOR_S_CRIT"
    by (simp add: stale)
  show ?thesis
    using escalation_confirms_when_counter_reaches_three [OF ne newstatus_crit_sample
        newstatus_crit_sample newstatus_crit_sample newstatus_crit_sample,
        of 20 40 60 80]
      escalation_confirms_when_counter_reaches_three [OF ne' ne(2) newstatus_crit_sample_stale
        newstatus_crit_sample_stale newstatus_crit_sample_stale newstatus_crit_sample_stale,
        of 100 0 0 0]
      ok stale newstatus_crit_sample newstatus_crit_sample_stale
    by simp
qed

text \<open>
  C2, as stated, fails: with the bounds crossed (lower 10, upper 5) a sample equal to the
  upper bound is below the lower one, and its candidate is CRIT.
\<close>

theorem value_at_upper_bound_crit:
  "sstatus upper_sample = SENSOR_S_UNSPEC \<and> svalue upper_sample = upper crossed_limit \<and>
   newstatus upper_sample crossed_limit = SENSOR_S_CRIT"
  by (simp add: newstatus_def upper_sample_def crossed_limit_def ok_limit_def word_sless_alt)

text \<open>
  C2, amended: for a sensor whose reported status is unspecified the candidate is CRIT
  exactly when the value is greater than the upper bound or less than the lower bound,
  and OK otherwise; so a value equal to one bound is OK exactly when it does not breach
  the other bound, which is the case whenever the lower bound is not above the upper one.
\<close>

theorem bounds_are_strict:
  assumes "sstatus s = SENSOR_S_UNSPEC"
  shows "(newstatus s limit = SENSOR_S_CRIT \<longleftrightarrow>
            upper limit <s svalue s \<or> svalue s <s lower limit) \<and>
         (newstatus s limit = SENSOR_S_OK \<longleftrightarrow>
            \<not> (upper limit <s svalue s \<or> svalue s <s lower limit)) \<and>
         (svalue s = upper limit \<longrightarrow>
            (newstatus s limit = SENSOR_S_OK \<longleftrightarrow> lower limit \<le>s upper limit)) \<and>
         (svalue s = lower limit \<longrightarrow>
            (newstatus s limit = SENSOR_S_OK \<longleftrightarrow> lower limit \<le>s upper limit))"
  using assms by (auto simp add: newstatus_def)

theorem bounds_are_strict_witness:
  "sstatus \<lparr>svalue = 350000000, sstatus = SENSOR_S_UNSPEC\<rparr> = SENSOR_S_UNSPEC \<and>
   svalue \<lparr>svalue = 350000000, sstatus = SENSOR_S_UNSPEC\<rparr> = upper ok_limit \<and>
   lower ok_limit \<le>s upper ok_limit \<and>
   newstatus \<lparr>svalue = 350000000, sstatus = SENSOR_S_UNSPEC\<rparr> ok_limit = SENSOR_S_OK"
  using bounds_are_strict [of "\<lparr>svalue = 350000000, sstatus = SENSOR_S_UNSPEC\<rparr>" ok_limit]
  by (simp add: ok_limit_def word_sle_eq)

text \<open>
  C3: a watched sensor whose confirmed status is not OK and whose sample has candidate OK
  gets confirmed and pending status OK and the time of this sample as its change time, in
  that one pass, whatever the streak counter holds.
\<close>

theorem recovery_is_immediate:
  assumes "watch limit \<noteq> 0"
    and "sysctl (dev limit, type limit, numt limit) = Some s"
    and "newstatus s limit = SENSOR_S_OK"
    and "status limit \<noteq> SENSOR_S_OK"
  shows "\<exists>limit'. check_limit sysctl now limit = Inr limit' \<and>
           status limit' = SENSOR_S_OK \<and> status2 limit' = SENSOR_S_OK \<and>
           status_changed limit' = now"
  using assms by (simp add: check_limit_def update_limit_cases)

theorem recovery_is_immediate_witness:
  "watch crit_limit \<noteq> 0 \<and> status crit_limit = SENSOR_S_CRIT \<and>
   newstatus ok_sample crit_limit = SENSOR_S_OK \<and>
   (\<exists>limit'. check_limit (\<lambda>m. Some ok_sample) 160 crit_limit = Inr limit' \<and>
      status limit' = SENSOR_S_OK \<and> status2 limit' = SENSOR_S_OK \<and>
      status_changed limit' = 160)"
proof -
  have w: "watch crit_limit \<noteq> 0" and st: "status crit_limit = SENSOR_S_CRIT"
    by (simp_all add: crit_limit_def)
  have ne: "status crit_limit \<noteq> SENSOR_S_OK"
    by (simp add: st)
  show ?thesis
    using recovery_is_immediate [of crit_limit "\<lambda>m. Some ok_sample" ok_sample 160]
      w st ne newstatus_ok_sample
    by simp
qed

section \<open>The command template\<close>

lemma expand_literal:
  "c \<noteq> CHR ''%'' \<Longrightarrow> length buf < len \<Longrightarrow>
     expand len tn l (c # cmd) buf = expand len tn l cmd (buf @ [c])"
  by (cases cmd) simp_all

lemma expand_literals:
  "\<forall>c \<in> set cs. c \<noteq> CHR ''%'' \<Longrightarrow> length buf + length cs \<le> len \<Longrightarrow>
     expand len tn l (cs @ rest) buf = expand len tn l rest (buf @ cs)"
proof (induction cs arbitrary: buf)
  case Nil
  then show ?case by simp
next
  case (Cons c cs)
  then show ?case by (simp add: expand_literal)
qed

text \<open>
  C7, as stated, fails in its first half: the template \<^verbatim>\<open>%%\<close> expands to the two
  characters \<^verbatim>\<open>%%\<close>, not to a single one.
\<close>

theorem percent_percent_is_kept:
  "expand BUFSIZ type_names crit_limit [CHR ''%'', CHR ''%''] [] = Done [CHR ''%'', CHR ''%''] \<and>
   expand BUFSIZ type_names crit_limit [CHR ''%'', CHR ''%''] [] \<noteq> Done [CHR ''%'']"
  by (simp add: placeholder_def BUFSIZ_def)

text \<open>
  C7, amended: a percent sign followed by a character that is none of \<^verbatim>\<open>x t n 2 3 4\<close>, a
  second percent sign included, is copied to the output as these two characters, whenever
  they and the terminator fit; so \<^verbatim>\<open>%%\<close> produces \<^verbatim>\<open>%%\<close> and \<^verbatim>\<open>%q\<close> produces \<^verbatim>\<open>%q\<close>.
\<close>

theorem unrecognized_placeholder_is_literal:
  assumes "d \<notin> set ''xtn234''" and "length buf + 2 < len"
  shows "expand len tn l (CHR ''%'' # d # cmd) buf = expand len tn l cmd (buf @ [CHR ''%'', d]) \<and>
         expand len tn l [CHR ''%'', d] buf = Done (buf @ [CHR ''%'', d])"
  using assms by (auto simp: placeholder_def)

theorem unrecognized_placeholder_is_literal_witness:
  "expand BUFSIZ type_names crit_limit [CHR ''%'', CHR ''q''] [] = Done [CHR ''%'', CHR ''q''] \<and>
   expand BUFSIZ type_names crit_limit [CHR ''%'', CHR ''%''] [] = Done [CHR ''%'', CHR ''%'']"
  using unrecognized_placeholder_is_literal [of "CHR ''q''" "[]" BUFSIZ type_names crit_limit "[]"]
    unrecognized_placeholder_is_literal [of "CHR ''%''" "[]" BUFSIZ type_names crit_limit "[]"]
  by (simp add: BUFSIZ_def)

lemma expand_overflow_limit:
  "expand BUFSIZ tn overflow_limit (replicate 1020 (CHR ''a'') @ ''%x'') [] = Overflow"
proof -
  have "expand BUFSIZ tn overflow_limit (replicate 1020 (CHR ''a'') @ ''%x'') []
      = expand BUFSIZ tn overflow_limit ''%x'' ([] @ replicate 1020 (CHR ''a''))"
    by (rule expand_literals) (simp_all add: BUFSIZ_def)
  also have "\<dots> = Overflow"
    by (simp add: placeholder_def overflow_limit_def crit_limit_def BUFSIZ_def)
  finally show ?thesis .
qed

text \<open>
  A template of \<^verbatim>\<open>BUFSIZ\<close> literal characters leaves the loop through its condition: no
  failure is logged, and the buffer handed to \<^verbatim>\<open>execute\<close> has no terminator.
\<close>

lemma expand_full_buffer:
  "expand BUFSIZ tn l (replicate BUFSIZ (CHR ''a'')) [] = Unterminated (replicate BUFSIZ (CHR ''a''))"
proof -
  have "expand BUFSIZ tn l (replicate BUFSIZ (CHR ''a'') @ []) []
      = expand BUFSIZ tn l [] ([] @ replicate BUFSIZ (CHR ''a''))"
    by (rule expand_literals) simp_all
  then show ?thesis by simp
qed

lemma alert_line_second_limit:
  "alert_line type_names second_limit =
     ''hw.sensors.cpu1.temp0: exceed limits, value: 106.85 degC''"
  by code_simp

text \<open>
  C5: the code fails the claim. With two sensors whose status changed since the last
  report, the first with a template that overflows the buffer, the pass logs the first
  alert and the failure and ends: the second sensor, which alone is reported, gets
  neither its alert line nor its command.
\<close>

theorem overflow_ends_the_reporting_pass:
  "report BUFSIZ type_names 50 [overflow_limit, second_limit] =
     [Syslog LOG_ALERT (alert_line type_names overflow_limit),
      Syslog LOG_CRIT ''could not parse command''] \<and>
   report BUFSIZ type_names 50 [second_limit] =
     [Syslog LOG_ALERT ''hw.sensors.cpu1.temp0: exceed limits, value: 106.85 degC'']"
proof -
  have c: "command overflow_limit = Some (replicate 1020 (CHR ''a'') @ ''%x'')"
    "status_changed overflow_limit = 100"
    by (simp_all add: overflow_limit_def crit_limit_def)
  have s: "command second_limit = None" "status_changed second_limit = 100"
    by (simp_all add: second_limit_def crit_limit_def)
  show ?thesis
    by (simp add: c s expand_overflow_limit alert_line_second_limit)
qed

section \<open>Thresholds and their display\<close>

text \<open>The rounding on two known values: the \<^verbatim>\<open>double\<close> nearest to 0.1, and an exact integer.\<close>

lemma rnd64_tenth: "rnd64 (1 / 10) = 3602879701896397 / 36028797018963968"
  by code_simp

lemma rnd64_integer: "rnd64 298160000 = 298160000"
  by code_simp

lemma strtod_dec_25C: "strtod_dec ''25C'' = (25, ''C'')"
  by code_simp

lemma strtod_dec_abc: "strtod_dec ''abc'' = (0, ''abc'')"
  by code_simp

lemma strtod_dec_90K: "strtod_dec ''90K'' = (90, ''K'')"
  by code_simp

lemma strtod_dec_80C: "strtod_dec ''80C'' = (80, ''C'')"
  by code_simp

text \<open>
  C8: the code fails the claim. \<^verbatim>\<open>get_val\<close> adds 273.16 to the Celsius value while
  \<^verbatim>\<open>print_sensor\<close> subtracts 273.15, so the threshold \<^verbatim>\<open>25C\<close> becomes 298160000 and is
  displayed as 25.01 degC.
\<close>

theorem temperature_round_trip_25C:
  "get_val strtod_dec (Some ''25C'') 0 SENSOR_TEMP = Inr 298160000 \<and>
   print_sensor SENSOR_TEMP 298160000 = ''25.01 degC''"
  by code_simp

section \<open>Loading and reloading the configuration\<close>

lemma node_crit_limit: "node type_names crit_limit = ''hw.sensors.cpu0.temp0''"
  by code_simp

lemma node_second_limit: "node type_names second_limit = ''hw.sensors.cpu1.temp0''"
  by code_simp

lemma node_amps_limit: "node type_names amps_limit = ''hw.sensors.lm0.current0''"
  by code_simp

lemma get_val_None: "get_val strtod None up t = Inr (if up \<noteq> 0 then LLONG_MAX else LLONG_MIN)"
  by (simp add: get_val_def)

text \<open>\<^verbatim>\<open>watch_cnt\<close> counts entries, so the value -1 that \<^verbatim>\<open>main\<close> tests for never comes back.\<close>

lemma parse_config_count:
  "parse_config strtod tn db ls = Inr (n, ls') \<Longrightarrow> 0 \<le> n"
  by (induction ls arbitrary: n ls') (auto split: sum.splits prod.splits if_splits)

lemma reload_never_logs_error:
  "reload_config strtod tn db cf ls \<noteq> Inr (Syslog LOG_CRIT msg, ls')"
  using parse_config_count [of strtod tn db ls]
  by (auto simp: reload_config_def split: sum.splits prod.splits)

text \<open>
  C4: the code fails the claim. A reload that meets the threshold \<^verbatim>\<open>abc\<close>, or \<^verbatim>\<open>90K\<close> for a
  temperature sensor, ends the process inside \<^verbatim>\<open>get_val\<close> exactly as the initial load does;
  the branch of \<^verbatim>\<open>main\<close> that would log the failure and go on is never reached.
\<close>

theorem reload_with_bad_threshold_is_fatal:
  "reload_config strtod_dec type_names bad_number_db ''/etc/sensorsd.conf'' [crit_limit] =
     Inl (Fatal ''incorrect value: abc'') \<and>
   reload_config strtod_dec type_names bad_unit_db ''/etc/sensorsd.conf'' [crit_limit] =
     Inl (Fatal ''unknown unit K for temp sensor'') \<and>
   initial_load strtod_dec type_names bad_number_db [crit_limit] =
     Inl (Fatal ''incorrect value: abc'')"
proof -
  have t: "type crit_limit = SENSOR_TEMP"
    by (simp add: crit_limit_def)
  have number: "config_limit strtod_dec type_names bad_number_db crit_limit =
      Inl (Fatal ''incorrect value: abc'')"
    by (simp add: config_limit_def node_crit_limit bad_number_db_def get_val_def strtod_dec_abc)
  have unit: "config_limit strtod_dec type_names bad_unit_db crit_limit =
      Inl (Fatal ''unknown unit K for temp sensor'')"
    by (simp add: config_limit_def node_crit_limit bad_unit_db_def get_val_def
        strtod_dec_90K t)
  show ?thesis
    by (simp add: reload_config_def initial_load_def number unit)
qed

lemma config_limit_state:
  assumes "config_limit strtod tn db p = Inr p'"
  shows "same_state p p'"
    and "if db (node tn p) = None then p' = p\<lparr>watch := 0\<rparr> else watch p' = 1"
  using assms
  by (auto simp: config_limit_def same_state_def Let_def split: option.splits sum.splits)

text \<open>
  C6, as stated, fails in its second half: a reload that no longer finds a record for a
  sensor only clears its watch flag; confirmed and pending status, streak, last value and
  change time stay in the entry.
\<close>

theorem removed_sensor_keeps_its_state:
  "parse_config strtod_dec type_names empty_db [crit_limit] = Inr (0, [crit_limit\<lparr>watch := 0\<rparr>]) \<and>
   status (crit_limit\<lparr>watch := 0\<rparr>) = SENSOR_S_CRIT \<and>
   status2 (crit_limit\<lparr>watch := 0\<rparr>) = SENSOR_S_CRIT \<and>
   count (crit_limit\<lparr>watch := 0\<rparr>) = 3 \<and>
   last_val (crit_limit\<lparr>watch := 0\<rparr>) = 380000000 \<and>
   status_changed (crit_limit\<lparr>watch := 0\<rparr>) = 100"
  by (simp add: config_limit_def empty_db_def crit_limit_def)

text \<open>
  C6, amended: a reload that completes preserves the run-time state (last value,
  confirmed status, pending status, streak, change time) of every sensor, whether it
  remains configured or not; a sensor that is no longer configured has its watch flag
  cleared and nothing else changed, a configured one is marked watched.
\<close>

theorem reload_preserves_state:
  "parse_config strtod tn db ls = Inr (n, ls') \<Longrightarrow>
     list_all2
       (\<lambda>p p'. same_state p p' \<and>
          (if db (node tn p) = None then p' = p\<lparr>watch := 0\<rparr> else watch p' = 1))
       ls ls'"
proof (induction ls arbitrary: n ls')
  case Nil
  then show ?case by simp
next
  case (Cons p rest)
  from Cons.prems obtain p' m rest' where
    p': "config_limit strtod tn db p = Inr p'" and
    rest': "parse_config strtod tn db rest = Inr (m, rest')" and
    ls': "ls' = p' # rest'"
    by (auto split: sum.splits prod.splits)
  from Cons.IH [OF rest'] config_limit_state [OF p'] ls' show ?case
    by simp
qed

lemma parse_config_cpu0:
  "parse_config strtod_dec type_names cpu0_db [crit_limit, second_limit] =
     Inr (1, [crit_limit\<lparr>watch := 1, lower := LLONG_MIN, upper := 353160000\<rparr>,
              second_limit\<lparr>watch := 0\<rparr>])"
proof -
  have high: "get_val strtod_dec (Some ''80C'') 1 SENSOR_TEMP = Inr 353160000"
    by code_simp
  have t: "type crit_limit = SENSOR_TEMP"
    by (simp add: crit_limit_def)
  have first: "config_limit strtod_dec type_names cpu0_db crit_limit =
      Inr (crit_limit\<lparr>watch := 1, lower := LLONG_MIN, upper := 353160000\<rparr>)"
    by (simp add: config_limit_def node_crit_limit cpu0_db_def get_val_None high t)
  have second: "config_limit strtod_dec type_names cpu0_db second_limit =
      Inr (second_limit\<lparr>watch := 0\<rparr>)"
    by (simp add: config_limit_def node_second_limit cpu0_db_def)
  show ?thesis
    by (simp add: first second)
qed

theorem reload_preserves_state_witness:
  "parse_config strtod_dec type_names cpu0_db [crit_limit, second_limit] =
     Inr (1, [crit_limit\<lparr>watch := 1, lower := LLONG_MIN, upper := 353160000\<rparr>,
              second_limit\<lparr>watch := 0\<rparr>]) \<and>
   same_state crit_limit (crit_limit\<lparr>watch := 1, lower := LLONG_MIN, upper := 353160000\<rparr>) \<and>
   same_state second_limit (second_limit\<lparr>watch := 0\<rparr>)"
  using reload_preserves_state [OF parse_config_cpu0] parse_config_cpu0
  by simp

lemma config_limit_no_bounds:
  assumes "db (node tn p) = Some r" "r ''low'' = None" "r ''high'' = None"
  shows "config_limit strtod tn db p =
    Inr (p\<lparr>watch := 1, lower := LLONG_MIN, upper := LLONG_MAX,
           command := (case r ''command'' of None \<Rightarrow> command p | Some ebuf \<Rightarrow> Some ebuf)\<rparr>)"
  using assms by (simp add: config_limit_def get_val_None Let_def split: option.splits)

lemma config_limit_error:
  assumes "config_limit strtod tn db p = Inl e"
  shows "\<exists>r. db (node tn p) = Some r \<and> (r ''low'' \<noteq> None \<or> r ''high'' \<noteq> None)"
proof (cases "db (node tn p)")
  case None
  with assms show ?thesis by (simp add: config_limit_def)
next
  case (Some r)
  show ?thesis
  proof (rule ccontr)
    assume "\<not> ?thesis"
    with Some have "r ''low'' = None" "r ''high'' = None" by auto
    from config_limit_no_bounds [of db tn p r strtod] Some this assms show False by simp
  qed
qed

lemma parse_config_error:
  "parse_config strtod tn db ls = Inl e \<Longrightarrow>
     \<exists>q \<in> set ls. \<exists>r. db (node tn q) = Some r \<and> (r ''low'' \<noteq> None \<or> r ''high'' \<noteq> None) \<and>
       config_limit strtod tn db q = Inl e"
proof (induction ls)
  case Nil
  then show ?case by simp
next
  case (Cons p rest)
  show ?case
  proof (cases "config_limit strtod tn db p")
    case (Inl e')
    with Cons.prems have "e' = e" by simp
    with Inl config_limit_error [of strtod tn db p e] show ?thesis by auto
  next
    case (Inr p')
    with Cons.prems have "parse_config strtod tn db rest = Inl e"
      by (simp split: sum.splits prod.splits)
    from Cons.IH [OF this] show ?thesis by auto
  qed
qed

lemma parse_config_entries:
  "parse_config strtod tn db ls = Inr (n, ls') \<Longrightarrow>
     list_all2 (\<lambda>q q'. config_limit strtod tn db q = Inr q') ls ls'"
  by (induction ls arbitrary: n ls') (auto split: sum.splits prod.splits)

text \<open>
  C10: with the bound string absent \<^verbatim>\<open>get_val\<close> returns \<^verbatim>\<open>LLONG_MAX\<close> for an upper and
  \<^verbatim>\<open>LLONG_MIN\<close> for a lower bound, for every sensor type and whatever \<^verbatim>\<open>strtod\<close> would
  do. So a sensor whose own record has neither a \<^verbatim>\<open>low\<close> nor a \<^verbatim>\<open>high\<close> field is marked
  watched with both defaults, whatever its type and whatever the records of the other
  sensors hold: a load ends in a fatal error only at an entry whose own record has a
  \<^verbatim>\<open>low\<close> or a \<^verbatim>\<open>high\<close> field, and a load that completes has treated every entry so.
\<close>

theorem absent_bound_is_default:
  "get_val strtod None up t = Inr (if up \<noteq> 0 then LLONG_MAX else LLONG_MIN) \<and>
   (db (node tn p) = Some r \<and> r ''low'' = None \<and> r ''high'' = None \<longrightarrow>
      config_limit strtod tn db p =
        Inr (p\<lparr>watch := 1, lower := LLONG_MIN, upper := LLONG_MAX,
               command := (case r ''command'' of None \<Rightarrow> command p | Some ebuf \<Rightarrow> Some ebuf)\<rparr>)) \<and>
   (parse_config strtod tn db ls = Inl e \<longrightarrow>
      (\<exists>q \<in> set ls. \<exists>r'. db (node tn q) = Some r' \<and>
         (r' ''low'' \<noteq> None \<or> r' ''high'' \<noteq> None) \<and>
         config_limit strtod tn db q = Inl e)) \<and>
   (parse_config strtod tn db ls = Inr (n, ls') \<longrightarrow>
      list_all2 (\<lambda>q q'. config_limit strtod tn db q = Inr q') ls ls')"
proof (intro conjI impI)
  show "get_val strtod None up t = Inr (if up \<noteq> 0 then LLONG_MAX else LLONG_MIN)"
    by (rule get_val_None)
next
  assume "db (node tn p) = Some r \<and> r ''low'' = None \<and> r ''high'' = None"
  then show "config_limit strtod tn db p =
      Inr (p\<lparr>watch := 1, lower := LLONG_MIN, upper := LLONG_MAX,
             command := (case r ''command'' of None \<Rightarrow> command p | Some ebuf \<Rightarrow> Some ebuf)\<rparr>)"
    using config_limit_no_bounds [of db tn p r strtod] by simp
next
  assume "parse_config strtod tn db ls = Inl e"
  then show "\<exists>q \<in> set ls. \<exists>r'. db (node tn q) = Some r' \<and>
      (r' ''low'' \<noteq> None \<or> r' ''high'' \<noteq> None) \<and> config_limit strtod tn db q = Inl e"
    by (rule parse_config_error)
next
  assume "parse_config strtod tn db ls = Inr (n, ls')"
  then show "list_all2 (\<lambda>q q'. config_limit strtod tn db q = Inr q') ls ls'"
    by (rule parse_config_entries)
qed

lemma parse_config_mixed:
  "parse_config strtod_dec type_names mixed_db [amps_limit, crit_limit] =
     Inr (2, [amps_limit\<lparr>watch := 1, lower := LLONG_MIN, upper := LLONG_MAX,
                command := Some ''beep''\<rparr>,
              crit_limit\<lparr>watch := 1, lower := LLONG_MIN, upper := 353160000\<rparr>])"
proof -
  have high: "get_val strtod_dec (Some ''80C'') 1 SENSOR_TEMP = Inr 353160000"
    by code_simp
  have t: "type crit_limit = SENSOR_TEMP"
    by (simp add: crit_limit_def)
  have first: "config_limit strtod_dec type_names mixed_db amps_limit =
      Inr (amps_limit\<lparr>watch := 1, lower := LLONG_MIN, upper := LLONG_MAX,
             command := Some ''beep''\<rparr>)"
    by (simp add: config_limit_def node_amps_limit mixed_db_def get_val_None)
  have second: "config_limit strtod_dec type_names mixed_db crit_limit =
      Inr (crit_limit\<lparr>watch := 1, lower := LLONG_MIN, upper := 353160000\<rparr>)"
    by (simp add: config_limit_def node_crit_limit mixed_db_def get_val_None high t)
  show ?thesis
    by (simp add: first second)
qed

theorem absent_bound_is_default_witness:
  "get_val strtod_dec None 1 SENSOR_AMPS = Inr LLONG_MAX \<and>
   get_val strtod_dec None 0 SENSOR_AMPS = Inr LLONG_MIN \<and>
   get_val strtod_dec (Some ''1'') 0 SENSOR_AMPS = Inl (Fatal ''unsupported sensor type'') \<and>
   type amps_limit = SENSOR_AMPS \<and>
   mixed_db (node type_names amps_limit) =
     Some (\<lambda>k. if k = ''command'' then Some ''beep'' else None) \<and>
   config_limit strtod_dec type_names mixed_db amps_limit =
     Inr (amps_limit\<lparr>watch := 1, lower := LLONG_MIN, upper := LLONG_MAX,
            command := Some ''beep''\<rparr>) \<and>
   parse_config strtod_dec type_names mixed_db [amps_limit, crit_limit] =
     Inr (2, [amps_limit\<lparr>watch := 1, lower := LLONG_MIN, upper := LLONG_MAX,
                command := Some ''beep''\<rparr>,
              crit_limit\<lparr>watch := 1, lower := LLONG_MIN, upper := 353160000\<rparr>]) \<and>
   list_all2 (\<lambda>q q'. config_limit strtod_dec type_names mixed_db q = Inr q')
     [amps_limit, crit_limit]
     [amps_limit\<lparr>watch := 1, lower := LLONG_MIN, upper := LLONG_MAX, command := Some ''beep''\<rparr>,
      crit_limit\<lparr>watch := 1, lower := LLONG_MIN, upper := 353160000\<rparr>]"
proof -
  have unsupported:
    "get_val strtod_dec (Some ''1'') 0 SENSOR_AMPS = Inl (Fatal ''unsupported sensor type'')"
    by code_simp
  have amps: "type amps_limit = SENSOR_AMPS"
    by (simp add: amps_limit_def)
  have rec: "mixed_db (node type_names amps_limit) =
      Some (\<lambda>k. if k = ''command'' then Some ''beep'' else None)"
    by (simp add: node_amps_limit mixed_db_def)
  note upper_case = absent_bound_is_default [of strtod_dec 1 SENSOR_AMPS mixed_db type_names
      amps_limit "\<lambda>k. if k = ''command'' then Some ''beep'' else None"
      "[amps_limit, crit_limit]" undefined 2
      "[amps_limit\<lparr>watch := 1, lower := LLONG_MIN, upper := LLONG_MAX, command := Some ''beep''\<rparr>,
        crit_limit\<lparr>watch := 1, lower := LLONG_MIN, upper := 353160000\<rparr>]"]
  note lower_case = absent_bound_is_default [of strtod_dec 0 SENSOR_AMPS mixed_db type_names
      amps_limit "\<lambda>k. if k = ''command'' then Some ''beep'' else None" "[]" undefined 0 "[]"]
  have up: "get_val strtod_dec None 1 SENSOR_AMPS = Inr LLONG_MAX"
    using upper_case [THEN conjunct1] by simp
  have lo: "get_val strtod_dec None 0 SENSOR_AMPS = Inr LLONG_MIN"
    using lower_case [THEN conjunct1] by simp
  have one: "config_limit strtod_dec type_names mixed_db amps_limit =
      Inr (amps_limit\<lparr>watch := 1, lower := LLONG_MIN, upper := LLONG_MAX,
             command := Some ''beep''\<rparr>)"
    using upper_case [THEN conjunct2, THEN conjunct1] rec by simp
  have all: "list_all2 (\<lambda>q q'. config_limit strtod_dec type_names mixed_db q = Inr q')
     [amps_limit, crit_limit]
     [amps_limit\<lparr>watch := 1, lower := LLONG_MIN, upper := LLONG_MAX, command := Some ''beep''\<rparr>,
      crit_limit\<lparr>watch := 1, lower := LLONG_MIN, upper := 353160000\<rparr>]"
    using upper_case [THEN conjunct2, THEN conjunct2, THEN conjunct2] parse_config_mixed
    by (rule mp)
  show ?thesis
    by (intro conjI) (rule up lo unsupported amps rec one parse_config_mixed all)+
qed

section \<open>Sensors that are not watched\<close>













end
